theory Spec2Isabelle
  imports Main
begin

section \<open>Strings of the host language\<close>

text \<open>
  Source: \<^verbatim>\<open>src/index.ts\<close>, the class \<^verbatim>\<open>MyMCP\<close>. JavaScript strings are modelled
  as \<^typ>\<open>string\<close>, one \<^typ>\<open>char\<close> per code unit, so the embedding covers the strings
  whose code units are U+0000 to U+00FF. On these, lower-casing, the white-space class
  and the case folding of the flag \<^verbatim>\<open>i\<close> are the language's own. So is upper-casing,
  except at U+00B5 and U+00FF, whose upper-case forms lie beyond U+00FF: the model
  leaves these two as they are, and a theorem about a title excludes them.
\<close>

definition upper_letters :: string where
  "upper_letters = ''ABCDEFGHIJKLMNOPQRSTUVWXYZ''"

definition lower_letters :: string where
  "lower_letters = ''abcdefghijklmnopqrstuvwxyz''"

text \<open>The cased letters beyond ASCII: U+00C0 to U+00DE without the multiplication sign
  U+00D7, and U+00E0 to U+00FE without the division sign U+00F7.\<close>

definition upper_latin :: string where
  "upper_latin =
    [CHR 0xC0, CHR 0xC1, CHR 0xC2, CHR 0xC3, CHR 0xC4, CHR 0xC5, CHR 0xC6, CHR 0xC7, CHR 0xC8, CHR 0xC9,
     CHR 0xCA, CHR 0xCB, CHR 0xCC, CHR 0xCD, CHR 0xCE, CHR 0xCF, CHR 0xD0, CHR 0xD1, CHR 0xD2, CHR 0xD3,
     CHR 0xD4, CHR 0xD5, CHR 0xD6, CHR 0xD8, CHR 0xD9, CHR 0xDA, CHR 0xDB, CHR 0xDC, CHR 0xDD, CHR 0xDE]"

definition lower_latin :: string where
  "lower_latin =
    [CHR 0xE0, CHR 0xE1, CHR 0xE2, CHR 0xE3, CHR 0xE4, CHR 0xE5, CHR 0xE6, CHR 0xE7, CHR 0xE8, CHR 0xE9,
     CHR 0xEA, CHR 0xEB, CHR 0xEC, CHR 0xED, CHR 0xEE, CHR 0xEF, CHR 0xF0, CHR 0xF1, CHR 0xF2, CHR 0xF3,
     CHR 0xF4, CHR 0xF5, CHR 0xF6, CHR 0xF8, CHR 0xF9, CHR 0xFA, CHR 0xFB, CHR 0xFC, CHR 0xFD, CHR 0xFE]"

definition upper_cased :: string where
  "upper_cased = upper_letters @ upper_latin"

definition lower_cased :: string where
  "lower_cased = lower_letters @ lower_latin"

text \<open>The lower-case form of a character. The letter is looked up among the ASCII
  letters or among those beyond, by the top bit of its code unit.\<close>

definition lower_char :: "char \<Rightarrow> char" where
  "lower_char c =
     (case map_of (if digit7 c then zip upper_latin lower_latin
                   else zip upper_letters lower_letters) c of
        Some d \<Rightarrow> d | None \<Rightarrow> c)"

text \<open>The upper-case form of a character where it is one character of the range. It is
  also the case folding of the flag \<^verbatim>\<open>i\<close>, which leaves a character alone when its
  upper-case form is longer than one code unit (U+00DF), and which sends U+00B5 and
  U+00FF to characters that no character of the range folds to.\<close>

definition upper_char :: "char \<Rightarrow> char" where
  "upper_char c =
     (case map_of (if digit7 c then zip lower_latin upper_latin
                   else zip lower_letters upper_letters) c of
        Some d \<Rightarrow> d | None \<Rightarrow> c)"

text \<open>\<^verbatim>\<open>String.prototype.toLowerCase\<close> and \<^verbatim>\<open>toUpperCase\<close>; the upper-case form of the
  sharp s U+00DF is \<^verbatim>\<open>SS\<close>.\<close>

definition toLowerCase :: "string \<Rightarrow> string" where
  "toLowerCase s = map lower_char s"

definition upper_string :: "char \<Rightarrow> string" where
  "upper_string c = (if c = CHR 0xDF then ''SS'' else [upper_char c])"

definition toUpperCase :: "string \<Rightarrow> string" where
  "toUpperCase s = concat (map upper_string s)"

text \<open>The class \<^verbatim>\<open>\s\<close> of a regular expression: tab, line feed, vertical tab, form
  feed, carriage return, space and no-break space.\<close>

definition is_space :: "char \<Rightarrow> bool" where
  "is_space c =
     (c \<in> set [CHR 0x09, CHR 0x0A, CHR 0x0B, CHR 0x0C, CHR 0x0D, CHR '' '', CHR 0xA0])"

text \<open>\<^verbatim>\<open>s.startsWith(sub)\<close> and \<^verbatim>\<open>s.includes(sub)\<close>: \<open>sub\<close> occurs in \<open>s\<close> at
  the front, or somewhere.\<close>

fun startsWith :: "string \<Rightarrow> string \<Rightarrow> bool" where
  "startsWith s [] = True"
| "startsWith [] (c # cs) = False"
| "startsWith (x # xs) (c # cs) = (x = c \<and> startsWith xs cs)"

fun includes_str :: "string \<Rightarrow> string \<Rightarrow> bool" where
  "includes_str [] sub = (sub = [])"
| "includes_str (x # xs) sub = (startsWith (x # xs) sub \<or> includes_str xs sub)"

text \<open>\<^verbatim>\<open>xs.join(sep)\<close>.\<close>

fun join_str :: "string \<Rightarrow> string list \<Rightarrow> string" where
  "join_str sep [] = []"
| "join_str sep [x] = x"
| "join_str sep (x # y # ys) = x @ sep @ join_str sep (y # ys)"

text \<open>\<^verbatim>\<open>s.split(d)\<close> for a one-character separator: the empty string splits into one
  empty segment, and two separators in a row enclose an empty segment.\<close>

fun split_str :: "char \<Rightarrow> string \<Rightarrow> string list" where
  "split_str d [] = [[]]"
| "split_str d (c # cs) =
     (if c = d then [] # split_str d cs
      else (case split_str d cs of [] \<Rightarrow> [[c]] | w # ws \<Rightarrow> (c # w) # ws))"

text \<open>\<^verbatim>\<open>s.replace(/\s+/g, r)\<close>: every maximal run of white space becomes \<open>r\<close>.\<close>

function replace_spaces :: "string \<Rightarrow> string \<Rightarrow> string" where
  "replace_spaces r [] = []"
| "replace_spaces r (c # cs) =
     (if is_space c then r @ replace_spaces r (dropWhile is_space cs)
      else c # replace_spaces r cs)"
  by pat_completeness auto
termination
  by (relation "measure (\<lambda>(r, s). length s)")
     (auto simp: less_Suc_eq_le length_dropWhile_le)

text \<open>A number interpolated into a template literal: its decimal digits.\<close>

definition digit_char :: "nat \<Rightarrow> char" where
  "digit_char d = ''0123456789'' ! (d mod 10)"

function string_of_nat :: "nat \<Rightarrow> string" where
  "string_of_nat n =
     (if n < 10 then [digit_char n] else string_of_nat (n div 10) @ [digit_char n])"
  by pat_completeness auto
termination
  by (relation "measure id") auto

definition nl :: string where
  "nl = [CHR 0x0A]"

text \<open>The apostrophe, which a string literal of the logic cannot end with.\<close>

definition sq :: string where
  "sq = [CHR 0x27]"

section \<open>The static catalog\<close>

text \<open>\<^verbatim>\<open>COMPONENTS\<close>, in declaration order.\<close>

definition COMPONENTS :: "string list" where
  "COMPONENTS =
    [''Accordion'', ''Alert'', ''App Bar'', ''Autocomplete'', ''Avatar'', ''Backdrop'',
     ''Badge'', ''Bottom Navigation'', ''Box'', ''Breadcrumbs'', ''Button'', ''Button Group'',
     ''Card'', ''Checkbox'', ''Chip'', ''Circular Progress'', ''Click Away Listener'',
     ''Container'', ''CSS Baseline'', ''Dialog'', ''Divider'', ''Drawer'',
     ''Floating Action Button'', ''Grid'', ''Image List'', ''Linear Progress'', ''Link'',
     ''List'', ''Masonry'', ''Menu'', ''Modal'', ''Pagination'', ''Paper'', ''Popover'',
     ''Popper'', ''Portal'', ''Radio Button'', ''Rating'', ''Select'', ''Skeleton'',
     ''Slider'', ''Snackbar'', ''Speed Dial'', ''Stack'', ''Stepper'', ''Switch'',
     ''Table'', ''Tabs'', ''Text Field'', ''Textarea Autosize'', ''Timeline'',
     ''Toggle Button'', ''Tooltip'', ''Transfer List'', ''Tree View'', ''Typography'']"

text \<open>\<^verbatim>\<open>COMPONENT_MAP\<close>: an object with string keys, which \<^verbatim>\<open>Object.entries\<close>
  enumerates in the order the keys were written.\<close>

definition COMPONENT_MAP :: "(string \<times> string list) list" where
  "COMPONENT_MAP =
    [(''form'', [''Text Field'', ''Select'', ''Checkbox'', ''Radio Button'', ''Switch'', ''Slider'',
                 ''Autocomplete'', ''Toggle Button'']),
     (''input'', [''Text Field'', ''Autocomplete'', ''Select'', ''Textarea Autosize'']),
     (''button'', [''Button'', ''Floating Action Button'', ''Button Group'', ''Toggle Button'']),
     (''navigation'', [''App Bar'', ''Bottom Navigation'', ''Breadcrumbs'', ''Drawer'', ''Link'',
                       ''Menu'', ''Stepper'', ''Tabs'']),
     (''layout'', [''Box'', ''Container'', ''Grid'', ''Stack'', ''Image List'', ''Masonry'']),
     (''data'', [''Table'', ''List'', ''Transfer List'', ''Tree View'', ''Pagination'']),
     (''feedback'', [''Alert'', ''Backdrop'', ''Dialog'', ''Progress'', ''Circular Progress'',
                     ''Linear Progress'', ''Skeleton'', ''Snackbar'']),
     (''overlay'', [''Modal'', ''Popover'', ''Popper'', ''Tooltip'', ''Menu'', ''Drawer'', ''Dialog'']),
     (''surface'', [''Card'', ''Paper'', ''Accordion'']),
     (''display'', [''Avatar'', ''Badge'', ''Chip'', ''Divider'', ''Typography'', ''Timeline'']),
     (''selection'', [''Checkbox'', ''Radio Button'', ''Select'', ''Switch'', ''Autocomplete'']),
     (''notification'', [''Alert'', ''Snackbar'']),
     (''loading'', [''Circular Progress'', ''Linear Progress'', ''Skeleton'', ''Backdrop'']),
     (''utility'', [''Click Away Listener'', ''CSS Baseline'', ''Portal'', ''No SSR''])]"

section \<open>Names, keys and URLs\<close>

definition toKebabCase :: "string \<Rightarrow> string" where
  "toKebabCase name = replace_spaces ''-'' (toLowerCase name)"

definition getComponentUrl :: "string \<Rightarrow> string" where
  "getComponentUrl component = ''https://mui.com/material-ui/react-'' @ toKebabCase component @ ''/''"

section \<open>The tool \<^verbatim>\<open>list_components\<close>\<close>

text \<open>Every handler returns one content item of type \<^verbatim>\<open>text\<close>; it is modelled by the
  string it holds. This handler takes no argument and reads only the constant
  catalog. Its lines are the array built by \<^verbatim>\<open>COMPONENTS.map\<close>.\<close>

definition list_components_lines :: "string list" where
  "list_components_lines = map (\<lambda>name. ''- '' @ name @ '' ('' @ toKebabCase name @ '')'') COMPONENTS"

definition list_components :: string where
  "list_components =
     ''# Material UI Components ('' @ string_of_nat (length COMPONENTS) @ '' total)'' @ nl @ nl
     @ join_str nl list_components_lines @ nl @ nl
     @ ''Use get_component_info with the kebab-case name to get details.'' @ nl @ nl
     @ ''For comprehensive MUI documentation guidance, use get_mui_guide.''"

section \<open>The tool \<^verbatim>\<open>search_components\<close>\<close>

text \<open>A \<^verbatim>\<open>Set<string>\<close> keeps its elements in insertion order: a list without
  repetition, where \<^verbatim>\<open>add\<close> of an element already present changes nothing.\<close>

definition set_add :: "string list \<Rightarrow> string \<Rightarrow> string list" where
  "set_add ms c = (if c \<in> set ms then ms else ms @ [c])"

text \<open>The first loop, over \<^verbatim>\<open>Object.entries(this.COMPONENT_MAP)\<close>.\<close>

fun search_categories :: "string \<Rightarrow> (string \<times> string list) list \<Rightarrow> string list \<Rightarrow> string list" where
  "search_categories lowerQuery [] matches = matches"
| "search_categories lowerQuery ((category, components) # entries) matches =
     search_categories lowerQuery entries
       (if includes_str lowerQuery category then foldl set_add matches components else matches)"

text \<open>The second loop, \<^verbatim>\<open>this.COMPONENTS.forEach\<close>.\<close>

fun search_names :: "string \<Rightarrow> string list \<Rightarrow> string list \<Rightarrow> string list" where
  "search_names lowerQuery [] matches = matches"
| "search_names lowerQuery (component # components) matches =
     search_names lowerQuery components
       (if includes_str (toLowerCase component) lowerQuery then set_add matches component
        else matches)"

text \<open>The set \<^verbatim>\<open>matches\<close> after both loops.\<close>

definition search_matches :: "string \<Rightarrow> string list" where
  "search_matches query =
     (let lowerQuery = toLowerCase query
      in search_names lowerQuery COMPONENTS (search_categories lowerQuery COMPONENT_MAP []))"

definition search_line :: "string \<Rightarrow> string" where
  "search_line name =
     ''- '' @ name @ '' ('' @ toKebabCase name @ '')'' @ nl @ ''  '' @ getComponentUrl name"

definition search_components :: "string \<Rightarrow> string" where
  \<open>search_components query =
     (let matches = search_matches query
      in if length matches = 0
         then ''No components found matching '' @ sq @ query @ sq @ ''.'' @ nl @ nl
              @ ''Try broader terms like: form, navigation, overlay, feedback, data, layout, input, button''
         else ''# Components matching "'' @ query @ ''" ('' @ string_of_nat (length matches)
              @ '' found)'' @ nl @ nl
              @ join_str nl (map search_line matches) @ nl @ nl
              @ ''Use get_component_info with the kebab-case name for details.'')\<close>

section \<open>Regular expressions of the extractor\<close>

text \<open>
  The patterns written in the source are sequences of literal text and of
  one-character classes under \<^verbatim>\<open>*\<close> or \<^verbatim>\<open>+\<close>, all with the flag \<^verbatim>\<open>i\<close>. An atom is
  one character position; under \<^verbatim>\<open>i\<close> two characters agree when their upper-case
  forms do.
\<close>

datatype atom = Chr char | Space | NoneOf string | OneOf string

fun accepts :: "atom \<Rightarrow> char \<Rightarrow> bool" where
  "accepts (Chr c) x = (upper_char x = upper_char c)"
| "accepts Space x = is_space x"
| "accepts (NoneOf cs) x = (upper_char x \<notin> set (map upper_char cs))"
| "accepts (OneOf cs) x = (upper_char x \<in> set (map upper_char cs))"

datatype item = Lit string | Once atom | Star atom | Plus atom

text \<open>
  Matching at the front of the input, as the backtracking matcher of the language
  does: a quantifier is greedy, it first tries one more character and gives it back
  when the rest of the pattern then fails. The result is the text each item consumed,
  so the whole match is the concatenation and a capture group is the text of its item.
\<close>

fun match_items :: "item list \<Rightarrow> string \<Rightarrow> string list option" where
  "match_items [] s = Some []"
| "match_items (Lit l # r) s =
     (if map upper_char (take (length l) s) = map upper_char l
      then map_option ((#) (take (length l) s)) (match_items r (drop (length l) s))
      else None)"
| "match_items (Once a # r) s =
     (case s of
        [] \<Rightarrow> None
      | x # xs \<Rightarrow> if accepts a x then map_option ((#) [x]) (match_items r xs) else None)"
| "match_items (Star a # r) s =
     (case s of
        [] \<Rightarrow> map_option ((#) []) (match_items r [])
      | x # xs \<Rightarrow>
          if accepts a x
          then (case match_items (Star a # r) xs of
                  Some (seg # segs) \<Rightarrow> Some ((x # seg) # segs)
                | _ \<Rightarrow> map_option ((#) []) (match_items r (x # xs)))
          else map_option ((#) []) (match_items r (x # xs)))"
| "match_items (Plus a # r) s =
     (case s of
        [] \<Rightarrow> None
      | x # xs \<Rightarrow>
          if accepts a x
          then (case match_items (Star a # r) xs of
                  Some (seg # segs) \<Rightarrow> Some ((x # seg) # segs)
                | _ \<Rightarrow> None)
          else None)"

text \<open>\<^verbatim>\<open>html.match(re)\<close> for a pattern without the flag \<^verbatim>\<open>g\<close>: the match at the
  leftmost position that has one, or \<^verbatim>\<open>null\<close>.\<close>

fun str_match :: "item list \<Rightarrow> string \<Rightarrow> string list option" where
  "str_match re [] = match_items re []"
| "str_match re (x # xs) =
     (case match_items re (x # xs) of Some segs \<Rightarrow> Some segs | None \<Rightarrow> str_match re xs)"

section \<open>The content extractor\<close>

text \<open>\<^verbatim>\<open>/<meta\s+name="description"\s+content="([^"]+)"/i\<close>; the group is item 5.\<close>

definition meta_re :: "item list" where
  \<open>meta_re = [Lit ''<meta'', Plus Space, Lit ''name="description"'', Plus Space,
              Lit ''content="'', Plus (NoneOf ''"''), Lit ''"'']\<close>

text \<open>\<^verbatim>\<open>/<p[^>]*>([^<]+)<\/p>/i\<close>; the group is item 3.\<close>

definition p_re :: "item list" where
  "p_re = [Lit ''<p'', Star (NoneOf ''>''), Lit ''>'', Plus (NoneOf ''<''), Lit ''</p>'']"

text \<open>\<^verbatim>\<open>/<code[^>]*>([^<]+)<\/code>/i\<close>; the group is item 3.\<close>

definition code_re :: "item list" where
  "code_re = [Lit ''<code'', Star (NoneOf ''>''), Lit ''>'', Plus (NoneOf ''<''), Lit ''</code>'']"

definition extractDescription :: "string \<Rightarrow> string" where
  "extractDescription html =
     (case str_match meta_re html of
        Some metaMatch \<Rightarrow> metaMatch ! 5
      | None \<Rightarrow>
          (case str_match p_re html of
             Some pMatch \<Rightarrow> pMatch ! 3
           | None \<Rightarrow> ''Component description not available''))"

definition extractUsage :: "string \<Rightarrow> string" where
  "extractUsage html =
     (case str_match code_re html of
        Some codeMatch \<Rightarrow> ''```tsx'' @ nl @ codeMatch ! 3 @ nl @ ''```''
      | None \<Rightarrow> ''See documentation for usage examples.'')"

text \<open>
  A value that was thrown: an \<^verbatim>\<open>Error\<close> object with its message, or any other value
  with the string \<^verbatim>\<open>String(error)\<close> makes of it.
\<close>

datatype thrown = ErrorObject string | OtherValue string

text \<open>
  \<^verbatim>\<open>extractImport\<close> builds its pattern from the component name, so the name's
  characters are read as pattern syntax. Where the stripped name has no syntax
  character the pattern is the one below. For any other name the pattern is left to
  the regular-expression engine of the runtime, a parameter: from the pattern's
  source it gives a syntax error, or the function from a text to the matched part.
\<close>

type_synonym regexp_engine = "string \<Rightarrow> thrown + (string \<Rightarrow> string option)"

definition syntax_chars :: string where
  "syntax_chars = [CHR 0x5C] @ ''^$.*+?()[]{}|''"

definition import_re :: "string \<Rightarrow> item list" where
  "import_re symbol =
     [Lit ''import'', Star Space, Lit ''{'', Star (NoneOf ''}''), Lit symbol, Star (NoneOf ''}''),
      Lit ''}'', Star Space, Lit ''from'', Star Space, Once (OneOf [CHR 0x22, CHR 0x27]),
      Lit ''@mui/material'', Once (OneOf [CHR 0x22, CHR 0x27])]"

definition import_pattern :: "string \<Rightarrow> string" where
  "import_pattern symbol =
     ''import'' @ [CHR 0x5C] @ ''s*{[^}]*'' @ symbol @ ''[^}]*}'' @ [CHR 0x5C] @ ''s*from''
     @ [CHR 0x5C] @ ''s*['' @ [CHR 0x22, CHR 0x27] @ '']@mui/material['' @ [CHR 0x22, CHR 0x27] @ '']''"

definition import_RegExp :: "regexp_engine \<Rightarrow> string \<Rightarrow> thrown + (string \<Rightarrow> string option)" where
  "import_RegExp engine symbol =
     (if list_all (\<lambda>c. c \<notin> set syntax_chars) symbol
      then Inr (\<lambda>html. map_option concat (str_match (import_re symbol) html))
      else engine (import_pattern symbol))"

definition extractImport :: "regexp_engine \<Rightarrow> string \<Rightarrow> string \<Rightarrow> thrown + string" where
  "extractImport engine html componentName =
     (case import_RegExp engine (replace_spaces [] componentName) of
        Inl e \<Rightarrow> Inl e
      | Inr re \<Rightarrow>
          (case re html of
             Some importMatch \<Rightarrow> Inr importMatch
           | None \<Rightarrow>
               (let pascalName = replace_spaces [] componentName
                in Inr (''import { '' @ pascalName @ '' } from '' @ sq @ ''@mui/material'' @ sq @ '';''))))"

section \<open>The tool \<^verbatim>\<open>get_component_info\<close>\<close>

text \<open>
  The outbound request is the environment's: \<^verbatim>\<open>fetch\<close> is a parameter that, for a
  URL, throws or gives a response with a status and a body whose reading may throw
  as well. \<^verbatim>\<open>response.ok\<close> is true for the statuses 200 to 299.
\<close>

record response =
  status :: nat
  body_text :: "thrown + string"

definition ok :: "response \<Rightarrow> bool" where
  "ok r = (200 \<le> status r \<and> status r \<le> 299)"

text \<open>\<^verbatim>\<open>w.charAt(0).toUpperCase() + w.slice(1)\<close>; \<^verbatim>\<open>charAt(0)\<close> of the empty string
  is the empty string.\<close>

definition capitalize :: "string \<Rightarrow> string" where
  "capitalize w = toUpperCase (take 1 w) @ drop 1 w"

text \<open>The constant \<^verbatim>\<open>componentTitle\<close> of the handler, as a function of the key.\<close>

definition componentTitle :: "string \<Rightarrow> string" where
  "componentTitle component = join_str '' '' (map capitalize (split_str (CHR ''-'') component))"

text \<open>The body of the \<^verbatim>\<open>try\<close> block: \<open>Inl\<close> is a value thrown inside it.\<close>

definition get_component_info_try ::
    "(string \<Rightarrow> thrown + response) \<Rightarrow> regexp_engine \<Rightarrow> string \<Rightarrow> thrown + string" where
  "get_component_info_try fetch engine component =
     (let url = ''https://mui.com/material-ui/react-'' @ component @ ''/''
      in case fetch url of
           Inl e \<Rightarrow> Inl e
         | Inr r \<Rightarrow>
             if \<not> ok r
             then Inr (''Error: Component '' @ sq @ component @ sq
                       @ '' not found. Use list_components to see available components.'')
             else (case body_text r of
                     Inl e \<Rightarrow> Inl e
                   | Inr html \<Rightarrow>
                       (let description = extractDescription html;
                            title = componentTitle component
                        in case extractImport engine html title of
                             Inl e \<Rightarrow> Inl e
                           | Inr importStatement \<Rightarrow>
                               Inr (''# '' @ title @ '' Component'' @ nl @ nl
                                    @ description @ nl @ nl
                                    @ ''## Import'' @ nl @ ''```tsx'' @ nl
                                    @ importStatement @ nl @ ''```'' @ nl @ nl
                                    @ ''## Documentation'' @ nl @ ''Full documentation: '' @ url @ nl @ nl
                                    @ ''For API reference and props, visit the API tab on the documentation page.''
                                    @ nl @ nl
                                    @ ''## Related Resources'' @ nl
                                    @ ''- Check the documentation page for live demos and examples'' @ nl
                                    @ ''- Use get_customization_guide for theming and styling options'' @ nl
                                    @ ''- Use search_components to find related components''))))"

text \<open>The handler: what the \<^verbatim>\<open>try\<close> block returns, or the text its \<^verbatim>\<open>catch\<close> clause makes
  of the thrown value. \<open>Inl\<close> would be a value thrown to the host.\<close>

definition get_component_info ::
    "(string \<Rightarrow> thrown + response) \<Rightarrow> regexp_engine \<Rightarrow> string \<Rightarrow> thrown + string" where
  "get_component_info fetch engine component =
     (case get_component_info_try fetch engine component of
        Inr result \<Rightarrow> Inr result
      | Inl error \<Rightarrow>
          Inr (''Error fetching component info: ''
               @ (case error of ErrorObject message \<Rightarrow> message | OtherValue s \<Rightarrow> s)))"

section \<open>The static guides\<close>

text \<open>
  Three tools take no argument and return a fixed text, a template literal without
  interpolation. Each is given by its lines, which the line feed joins.
\<close>

text \<open>The text of the tool \<^verbatim>\<open>get_customization_guide\<close>, line by line.\<close>

definition get_customization_guide_lines :: "string list" where
  \<open>get_customization_guide_lines =
     [''# Material UI Customization Guide'',
      '''',
      ''Material UI provides multiple ways to customize components:'',
      '''',
      ''## 1. Theme Customization'',
      '''',
      ''Create a custom theme using `createTheme`:'',
      '''',
      ''```tsx'',
      ''import { createTheme, ThemeProvider } from '@mui/material/styles';'',
      '''',
      ''const theme = createTheme({'',
      ''  palette: {'',
      ''    primary: {'',
      ''      main: '#1976d2','',
      ''    },'',
      ''    secondary: {'',
      ''      main: '#dc004e','',
      ''    },'',
      ''  },'',
      ''  typography: {'',
      ''    fontFamily: 'Roboto, Arial, sans-serif','',
      ''  },'',
      ''});'',
      '''',
      ''function App() {'',
      ''  return ('',
      ''    <ThemeProvider theme={theme}>'',
      ''      {/* Your app */}'',
      ''    </ThemeProvider>'',
      ''  );'',
      ''}'',
      ''```'',
      '''',
      ''## 2. Component-Level Customization'',
      '''',
      ''### Using sx prop (recommended for one-off styles):'',
      ''```tsx'',
      ''<Button sx={{ backgroundColor: 'primary.main', '&:hover': { backgroundColor: 'primary.dark' } }}>'',
      ''  Custom Button'',
      ''</Button>'',
      ''```'',
      '''',
      ''### Using styled() API:'',
      ''```tsx'',
      ''import { styled } from '@mui/material/styles';'',
      ''import Button from '@mui/material/Button';'',
      '''',
      ''const CustomButton = styled(Button)(({ theme }) => ({'',
      ''  backgroundColor: theme.palette.primary.main,'',
      ''  '&:hover': {'',
      ''    backgroundColor: theme.palette.primary.dark,'',
      ''  },'',
      ''}));'',
      ''```'',
      '''',
      ''## 3. Theme Component Overrides'',
      '''',
      ''Override default props or styles for all instances:'',
      '''',
      ''```tsx'',
      ''const theme = createTheme({'',
      ''  components: {'',
      ''    MuiButton: {'',
      ''      styleOverrides: {'',
      ''        root: {'',
      ''          borderRadius: 8,'',
      ''        },'',
      ''      },'',
      ''      defaultProps: {'',
      ''        variant: 'contained','',
      ''      },'',
      ''    },'',
      ''  },'',
      ''});'',
      ''```'',
      '''',
      ''## 4. Color Modes (Dark Mode)'',
      '''',
      ''```tsx'',
      ''import { createTheme, ThemeProvider } from '@mui/material/styles';'',
      ''import CssBaseline from '@mui/material/CssBaseline';'',
      '''',
      ''const theme = createTheme({'',
      ''  palette: {'',
      ''    mode: 'dark', // or 'light'' @ sq,
      ''  },'',
      ''});'',
      '''',
      ''function App() {'',
      ''  return ('',
      ''    <ThemeProvider theme={theme}>'',
      ''      <CssBaseline />'',
      ''      {/* Your app */}'',
      ''    </ThemeProvider>'',
      ''  );'',
      ''}'',
      ''```'',
      '''',
      ''## Key Resources'',
      ''- Full customization guide: https://mui.com/material-ui/customization/how-to-customize/'',
      ''- Theming: https://mui.com/material-ui/customization/theming/'',
      ''- Default theme structure: https://mui.com/material-ui/customization/default-theme/'',
      ''- CSS Baseline for consistent styles: https://mui.com/material-ui/react-css-baseline/'']\<close>

definition get_customization_guide :: string where
  "get_customization_guide = join_str nl get_customization_guide_lines"

text \<open>The text of the tool \<^verbatim>\<open>get_setup_guide\<close>, line by line.\<close>

definition get_setup_guide_lines :: "string list" where
  \<open>get_setup_guide_lines =
     [''# Material UI Setup Guide'',
      '''',
      ''## Installation'',
      '''',
      ''### npm'',
      ''```bash'',
      ''npm install @mui/material @emotion/react @emotion/styled'',
      ''```'',
      '''',
      ''### yarn'',
      ''```bash'',
      ''yarn add @mui/material @emotion/react @emotion/styled'',
      ''```'',
      '''',
      ''### pnpm'',
      ''```bash'',
      ''pnpm add @mui/material @emotion/react @emotion/styled'',
      ''```'',
      '''',
      ''## Roboto Font (Optional but Recommended)'',
      '''',
      ''Material UI uses the Roboto font by default. Add to your HTML:'',
      '''',
      ''```html'',
      ''<link'',
      ''  rel="stylesheet"'',
      ''  href="https://fonts.googleapis.com/css2?family=Roboto:wght@300;400;500;700&display=swap"'',
      ''/>'',
      ''```'',
      '''',
      ''Or install via npm:'',
      ''```bash'',
      ''npm install @fontsource/roboto'',
      ''```'',
      '''',
      ''Then import in your app:'',
      ''```tsx'',
      ''import '@fontsource/roboto/300.css';'',
      ''import '@fontsource/roboto/400.css';'',
      ''import '@fontsource/roboto/500.css';'',
      ''import '@fontsource/roboto/700.css';'',
      ''```'',
      '''',
      ''## Icons (Optional)'',
      '''',
      ''For Material Icons:'',
      '''',
      ''```bash'',
      ''npm install @mui/icons-material'',
      ''```'',
      '''',
      ''Usage:'',
      ''```tsx'',
      ''import DeleteIcon from '@mui/icons-material/Delete';'',
      '''',
      ''<Button startIcon={<DeleteIcon />}>Delete</Button>'',
      ''```'',
      '''',
      ''## Basic Usage'',
      '''',
      ''```tsx'',
      ''import Button from '@mui/material/Button';'',
      '''',
      ''function App() {'',
      ''  return <Button variant="contained">Hello World</Button>;'',
      ''}'',
      '''',
      ''export default App;'',
      ''```'',
      '''',
      ''## With Theme Provider'',
      '''',
      ''```tsx'',
      ''import { ThemeProvider, createTheme } from '@mui/material/styles';'',
      ''import CssBaseline from '@mui/material/CssBaseline';'',
      '''',
      ''const theme = createTheme();'',
      '''',
      ''function App() {'',
      ''  return ('',
      ''    <ThemeProvider theme={theme}>'',
      ''      <CssBaseline />'',
      ''      {/* Your app content */}'',
      ''    </ThemeProvider>'',
      ''  );'',
      ''}'',
      ''```'',
      '''',
      ''## Resources'',
      ''- Installation docs: https://mui.com/material-ui/getting-started/installation/'',
      ''- Usage guide: https://mui.com/material-ui/getting-started/usage/'',
      ''- Example projects: https://mui.com/material-ui/getting-started/example-projects/'']\<close>

definition get_setup_guide :: string where
  "get_setup_guide = join_str nl get_setup_guide_lines"

text \<open>The text of the tool \<^verbatim>\<open>get_mui_guide\<close>, line by line.\<close>

definition get_mui_guide_lines :: "string list" where
  \<open>get_mui_guide_lines =
     [''# Material UI Documentation Guide'',
      '''',
      ''## About Material UI'',
      '''',
      ''Material UI is the world's most popular React UI framework, implementing Google's Material Design specification. It provides a comprehensive suite of 50+ production-ready components.'',
      '''',
      ''## Key Features'',
      '''',
      ''- **Production-ready components**: Battle-tested components used by thousands of companies'',
      ''- **Customization**: Extensive theming and styling options'',
      ''- **Accessibility**: WCAG 2.0 compliant components'',
      ''- **TypeScript**: Full TypeScript support with rich type definitions'',
      ''- **Design Resources**: Figma kits and design tools available'',
      '''',
      ''## Component Categories'',
      '''',
      ''1. **Inputs**: Text Field, Select, Checkbox, Radio, Switch, Slider, Autocomplete'',
      ''2. **Data Display**: Table, List, Typography, Avatar, Badge, Chip, Tooltip'',
      ''3. **Feedback**: Alert, Dialog, Progress, Snackbar, Skeleton'',
      ''4. **Surfaces**: Card, Paper, Accordion'',
      ''5. **Navigation**: App Bar, Drawer, Tabs, Breadcrumbs, Menu, Stepper'',
      ''6. **Layout**: Box, Container, Grid, Stack'',
      ''7. **Utils**: Click Away Listener, CSS Baseline, Portal'',
      '''',
      ''## Getting Started Workflow'',
      '''',
      ''1. **Install**: Use get_setup_guide tool'',
      ''2. **Browse Components**: Use list_components to see all available components'',
      ''3. **Find Components**: Use search_components to find components by use case'',
      ''4. **Learn Component**: Use get_component_info for specific component details'',
      ''5. **Customize**: Use get_customization_guide for theming and styling'',
      '''',
      ''## Best Practices'',
      '''',
      ''### Import Individual Components'',
      ''```tsx'',
      ''// Good - tree-shakeable'',
      ''import Button from '@mui/material/Button';'',
      ''import TextField from '@mui/material/TextField';'',
      '''',
      ''// Avoid - imports entire library'',
      ''import { Button, TextField } from '@mui/material';'',
      ''```'',
      '''',
      ''### Use Theme Provider'',
      ''Always wrap your app in ThemeProvider for consistent styling:'',
      ''```tsx'',
      ''import { ThemeProvider, createTheme } from '@mui/material/styles';'',
      ''import CssBaseline from '@mui/material/CssBaseline';'',
      '''',
      ''const theme = createTheme({'',
      ''  // your customization'',
      ''});'',
      '''',
      ''function App() {'',
      ''  return ('',
      ''    <ThemeProvider theme={theme}>'',
      ''      <CssBaseline />'',
      ''      {/* Your app */}'',
      ''    </ThemeProvider>'',
      ''  );'',
      ''}'',
      ''```'',
      '''',
      ''### Use sx Prop for Styling'',
      ''The sx prop is the recommended way for one-off styles:'',
      ''```tsx'',
      ''<Box sx={{ p: 2, bgcolor: 'primary.main', borderRadius: 1 }}>'',
      ''  Content'',
      ''</Box>'',
      ''```'',
      '''',
      ''## Important Documentation Links'',
      '''',
      ''- **Main docs**: https://mui.com/material-ui/'',
      ''- **All components**: https://mui.com/material-ui/all-components/'',
      ''- **Customization**: https://mui.com/material-ui/customization/how-to-customize/'',
      ''- **Theming**: https://mui.com/material-ui/customization/theming/'',
      ''- **Icons**: https://mui.com/material-ui/icons/'',
      ''- **Templates**: https://mui.com/material-ui/getting-started/templates/'',
      '''',
      ''## MCP Tools Available'',
      '''',
      ''- **list_components**: See all available components'',
      ''- **get_component_info**: Get detailed component information'',
      ''- **search_components**: Find components by use case'',
      ''- **get_customization_guide**: Learn theming and styling'',
      ''- **get_setup_guide**: Installation and setup instructions'',
      ''- **get_mui_guide**: This comprehensive guide'',
      '''',
      ''## Support'',
      '''',
      ''- GitHub Issues: https://github.com/mui/material-ui/issues'',
      ''- Stack Overflow: Tag questions with [material-ui]'',
      ''- Discord: https://mui.com/material-ui/getting-started/support/'']\<close>

definition get_mui_guide :: string where
  "get_mui_guide = join_str nl get_mui_guide_lines"

section \<open>The six tools\<close>

text \<open>
  The tools that \<^verbatim>\<open>init\<close> registers, each with the argument its schema declares. The host
  calls one of them by name; the result is what its handler returns.
\<close>

datatype tool_call =
    List_components
  | Get_component_info string
  | Get_customization_guide
  | Search_components string
  | Get_setup_guide
  | Get_mui_guide

definition call_tool ::
    "(string \<Rightarrow> thrown + response) \<Rightarrow> regexp_engine \<Rightarrow> tool_call \<Rightarrow> thrown + string" where
  "call_tool fetch engine call =
     (case call of
        List_components \<Rightarrow> Inr list_components
      | Get_component_info component \<Rightarrow> get_component_info fetch engine component
      | Get_customization_guide \<Rightarrow> Inr get_customization_guide
      | Search_components query \<Rightarrow> Inr (search_components query)
      | Get_setup_guide \<Rightarrow> Inr get_setup_guide
      | Get_mui_guide \<Rightarrow> Inr get_mui_guide)"

section \<open>Notions of the specification\<close>

text \<open>
  The two match passes of \<^verbatim>\<open>search\<close> as the specification words them: the components
  of every category whose label is a substring of the lower-cased query, and the
  catalog names whose lower-cased form contains the lower-cased query.
\<close>

definition category_matches :: "string \<Rightarrow> string set" where
  "category_matches query =
     {c. \<exists>(label, comps) \<in> set COMPONENT_MAP.
           (\<exists>before after. toLowerCase query = before @ label @ after) \<and> c \<in> set comps}"

definition name_matches :: "string \<Rightarrow> string set" where
  "name_matches query =
     {c \<in> set COMPONENTS. \<exists>before after. toLowerCase c = before @ toLowerCase query @ after}"

text \<open>A simple capitalized word: an upper-case letter, then lower-case letters.\<close>

definition capitalized_word :: "string \<Rightarrow> bool" where
  "capitalized_word w =
     (case w of [] \<Rightarrow> False
      | c # cs \<Rightarrow> c \<in> set upper_letters \<and> list_all (\<lambda>x. x \<in> set lower_letters) cs)"

text \<open>A non-empty word of lower-case letters: what a key is made of.\<close>

definition lower_word :: "string \<Rightarrow> bool" where
  "lower_word v = (v \<noteq> [] \<and> list_all (\<lambda>x. x \<in> set lower_letters) v)"

text \<open>A key whose title stays within the range of the model: no segment of it starts
  with U+00B5 or U+00FF, the two characters whose upper-case forms lie beyond U+00FF.\<close>

definition title_in_range :: "string \<Rightarrow> bool" where
  "title_in_range component =
     list_all (\<lambda>w. take 1 w \<noteq> [CHR 0xB5] \<and> take 1 w \<noteq> [CHR 0xFF])
       (split_str (CHR ''-'') component)"

section \<open>The catalog listing\<close>

text \<open>
  C2, as amended: \<^verbatim>\<open>list_components\<close> lists the whole catalog in declaration order,
  one line per component, and the catalog has 56 components (not 54). The handler has
  no argument and no state, so every call returns this same text.
\<close>

theorem list_components_catalog:
  "length COMPONENTS = 56 \<and>
   list_components_lines =
    [''- Accordion (accordion)'',
     ''- Alert (alert)'',
     ''- App Bar (app-bar)'',
     ''- Autocomplete (autocomplete)'',
     ''- Avatar (avatar)'',
     ''- Backdrop (backdrop)'',
     ''- Badge (badge)'',
     ''- Bottom Navigation (bottom-navigation)'',
     ''- Box (box)'',
     ''- Breadcrumbs (breadcrumbs)'',
     ''- Button (button)'',
     ''- Button Group (button-group)'',
     ''- Card (card)'',
     ''- Checkbox (checkbox)'',
     ''- Chip (chip)'',
     ''- Circular Progress (circular-progress)'',
     ''- Click Away Listener (click-away-listener)'',
     ''- Container (container)'',
     ''- CSS Baseline (css-baseline)'',
     ''- Dialog (dialog)'',
     ''- Divider (divider)'',
     ''- Drawer (drawer)'',
     ''- Floating Action Button (floating-action-button)'',
     ''- Grid (grid)'',
     ''- Image List (image-list)'',
     ''- Linear Progress (linear-progress)'',
     ''- Link (link)'',
     ''- List (list)'',
     ''- Masonry (masonry)'',
     ''- Menu (menu)'',
     ''- Modal (modal)'',
     ''- Pagination (pagination)'',
     ''- Paper (paper)'',
     ''- Popover (popover)'',
     ''- Popper (popper)'',
     ''- Portal (portal)'',
     ''- Radio Button (radio-button)'',
     ''- Rating (rating)'',
     ''- Select (select)'',
     ''- Skeleton (skeleton)'',
     ''- Slider (slider)'',
     ''- Snackbar (snackbar)'',
     ''- Speed Dial (speed-dial)'',
     ''- Stack (stack)'',
     ''- Stepper (stepper)'',
     ''- Switch (switch)'',
     ''- Table (table)'',
     ''- Tabs (tabs)'',
     ''- Text Field (text-field)'',
     ''- Textarea Autosize (textarea-autosize)'',
     ''- Timeline (timeline)'',
     ''- Toggle Button (toggle-button)'',
     ''- Tooltip (tooltip)'',
     ''- Transfer List (transfer-list)'',
     ''- Tree View (tree-view)'',
     ''- Typography (typography)''] \<and>
   list_components =
     ''# Material UI Components (56 total)'' @ nl @ nl
     @ join_str nl list_components_lines @ nl @ nl
     @ ''Use get_component_info with the kebab-case name to get details.'' @ nl @ nl
     @ ''For comprehensive MUI documentation guidance, use get_mui_guide.''"
proof -
  have n: "length COMPONENTS = 56"
    by (simp add: COMPONENTS_def)
  have s: "string_of_nat 56 = ''56''"
    by code_simp
  have l: "list_components_lines =
    [''- Accordion (accordion)'',
     ''- Alert (alert)'',
     ''- App Bar (app-bar)'',
     ''- Autocomplete (autocomplete)'',
     ''- Avatar (avatar)'',
     ''- Backdrop (backdrop)'',
     ''- Badge (badge)'',
     ''- Bottom Navigation (bottom-navigation)'',
     ''- Box (box)'',
     ''- Breadcrumbs (breadcrumbs)'',
     ''- Button (button)'',
     ''- Button Group (button-group)'',
     ''- Card (card)'',
     ''- Checkbox (checkbox)'',
     ''- Chip (chip)'',
     ''- Circular Progress (circular-progress)'',
     ''- Click Away Listener (click-away-listener)'',
     ''- Container (container)'',
     ''- CSS Baseline (css-baseline)'',
     ''- Dialog (dialog)'',
     ''- Divider (divider)'',
     ''- Drawer (drawer)'',
     ''- Floating Action Button (floating-action-button)'',
     ''- Grid (grid)'',
     ''- Image List (image-list)'',
     ''- Linear Progress (linear-progress)'',
     ''- Link (link)'',
     ''- List (list)'',
     ''- Masonry (masonry)'',
     ''- Menu (menu)'',
     ''- Modal (modal)'',
     ''- Pagination (pagination)'',
     ''- Paper (paper)'',
     ''- Popover (popover)'',
     ''- Popper (popper)'',
     ''- Portal (portal)'',
     ''- Radio Button (radio-button)'',
     ''- Rating (rating)'',
     ''- Select (select)'',
     ''- Skeleton (skeleton)'',
     ''- Slider (slider)'',
     ''- Snackbar (snackbar)'',
     ''- Speed Dial (speed-dial)'',
     ''- Stack (stack)'',
     ''- Stepper (stepper)'',
     ''- Switch (switch)'',
     ''- Table (table)'',
     ''- Tabs (tabs)'',
     ''- Text Field (text-field)'',
     ''- Textarea Autosize (textarea-autosize)'',
     ''- Timeline (timeline)'',
     ''- Toggle Button (toggle-button)'',
     ''- Tooltip (tooltip)'',
     ''- Transfer List (transfer-list)'',
     ''- Tree View (tree-view)'',
     ''- Typography (typography)'']"
    by code_simp
  from n s l show ?thesis
    by (simp add: list_components_def)
qed

text \<open>
  C2, as stated, fails: the list returned by \<^verbatim>\<open>list_components\<close> does not have 54
  entries.
\<close>

theorem list_components_size_counterexample:
  "length list_components_lines \<noteq> 54"
  by (simp add: list_components_lines_def COMPONENTS_def)

section \<open>Searching the catalog\<close>

lemma startsWith_iff: "startsWith s sub \<longleftrightarrow> (\<exists>r. s = sub @ r)"
  by (induction s sub rule: startsWith.induct) auto

lemma includes_str_iff: "includes_str s sub \<longleftrightarrow> (\<exists>p r. s = p @ sub @ r)"
proof (induction s)
  case Nil
  then show ?case by simp
next
  case (Cons x xs)
  have "(\<exists>p r. x # xs = p @ sub @ r) \<longleftrightarrow> (\<exists>r. x # xs = sub @ r) \<or> (\<exists>p r. xs = p @ sub @ r)"
  proof
    assume "\<exists>p r. x # xs = p @ sub @ r"
    then obtain p r where e: "x # xs = p @ sub @ r" by blast
    show "(\<exists>r. x # xs = sub @ r) \<or> (\<exists>p r. xs = p @ sub @ r)"
    proof (cases p)
      case Nil
      with e show ?thesis by auto
    next
      case (Cons y ys)
      with e have "xs = ys @ sub @ r" by simp
      then show ?thesis by blast
    qed
  next
    assume "(\<exists>r. x # xs = sub @ r) \<or> (\<exists>p r. xs = p @ sub @ r)"
    then show "\<exists>p r. x # xs = p @ sub @ r"
    proof
      assume "\<exists>r. x # xs = sub @ r"
      then obtain r where "x # xs = [] @ sub @ r" by auto
      then show ?thesis by blast
    next
      assume "\<exists>p r. xs = p @ sub @ r"
      then obtain p r where "x # xs = (x # p) @ sub @ r" by auto
      then show ?thesis by blast
    qed
  qed
  with Cons show ?case by (simp add: startsWith_iff)
qed

lemma set_set_add: "set (set_add ms c) = insert c (set ms)"
  by (auto simp: set_add_def)

lemma distinct_set_add: "distinct ms \<Longrightarrow> distinct (set_add ms c)"
  by (simp add: set_add_def)

lemma set_foldl_set_add: "set (foldl set_add ms cs) = set ms \<union> set cs"
  by (induction cs arbitrary: ms) (auto simp: set_set_add)

lemma distinct_foldl_set_add: "distinct ms \<Longrightarrow> distinct (foldl set_add ms cs)"
  by (induction cs arbitrary: ms) (auto simp: distinct_set_add)

lemma set_search_categories:
  "set (search_categories q es ms) =
     set ms \<union> {c. \<exists>(label, comps) \<in> set es. includes_str q label \<and> c \<in> set comps}"
  by (induction q es ms rule: search_categories.induct) (auto simp: set_foldl_set_add)

lemma distinct_search_categories: "distinct ms \<Longrightarrow> distinct (search_categories q es ms)"
  by (induction q es ms rule: search_categories.induct) (auto simp: distinct_foldl_set_add)

lemma set_search_names:
  "set (search_names q cs ms) = set ms \<union> {c \<in> set cs. includes_str (toLowerCase c) q}"
  by (induction q cs ms rule: search_names.induct) (auto simp: set_set_add)

lemma distinct_search_names: "distinct ms \<Longrightarrow> distinct (search_names q cs ms)"
  by (induction q cs ms rule: search_names.induct) (auto simp: distinct_set_add)

text \<open>
  C1: for every query, the set built by \<^verbatim>\<open>search_components\<close> holds no name twice and is
  exactly the union of the category matches and the name matches; the text returned
  is the hint when that union is empty, and otherwise the list of the matches under
  a header that counts them.
\<close>

theorem search_components_union:
  \<open>distinct (search_matches query) \<and>
   set (search_matches query) = category_matches query \<union> name_matches query \<and>
   search_components query =
     (if category_matches query \<union> name_matches query = {}
      then ''No components found matching '' @ sq @ query @ sq @ ''.'' @ nl @ nl
           @ ''Try broader terms like: form, navigation, overlay, feedback, data, layout, input, button''
      else ''# Components matching "'' @ query @ ''" (''
           @ string_of_nat (card (category_matches query \<union> name_matches query)) @ '' found)'' @ nl @ nl
           @ join_str nl (map search_line (search_matches query)) @ nl @ nl
           @ ''Use get_component_info with the kebab-case name for details.'')\<close>
proof -
  have d: "distinct (search_matches query)"
    by (simp add: search_matches_def Let_def distinct_search_names distinct_search_categories)
  have s: "set (search_matches query) = category_matches query \<union> name_matches query"
    by (simp add: search_matches_def Let_def set_search_names set_search_categories
        category_matches_def name_matches_def includes_str_iff)
  have c: "card (category_matches query \<union> name_matches query) = length (search_matches query)"
    using d s distinct_card by metis
  have e: "(category_matches query \<union> name_matches query = {}) = (length (search_matches query) = 0)"
    using s by (metis length_0_conv set_empty)
  show ?thesis
    unfolding e c using d s by (simp add: search_components_def Let_def)
qed

section \<open>Keys and titles\<close>

lemma upper_lower_all: "list_all (\<lambda>c. upper_char (lower_char c) = c) upper_letters"
  by code_simp
lemma lower_char_lower_all: "list_all (\<lambda>c. lower_char c = c) lower_letters"
  by code_simp
lemma lower_char_is_lower_all: "list_all (\<lambda>c. lower_char c \<in> set lower_letters) upper_letters"
  by code_simp
lemma lower_letter_plain_all: "list_all (\<lambda>c. \<not> is_space c \<and> c \<noteq> CHR ''-'') lower_letters"
  by code_simp
lemma upper_string_lower_all: "list_all (\<lambda>c. upper_string (lower_char c) = [c]) upper_letters"
  by code_simp

lemma upper_lower_char: "c \<in> set upper_letters \<Longrightarrow> upper_char (lower_char c) = c"
  using upper_lower_all by (simp add: list_all_iff)

lemma lower_char_lower: "c \<in> set lower_letters \<Longrightarrow> lower_char c = c"
  using lower_char_lower_all by (simp add: list_all_iff)

lemma lower_char_is_lower: "c \<in> set upper_letters \<Longrightarrow> lower_char c \<in> set lower_letters"
  using lower_char_is_lower_all by (simp add: list_all_iff)

lemma lower_letter_plain: "c \<in> set lower_letters \<Longrightarrow> \<not> is_space c \<and> c \<noteq> CHR ''-''"
  using lower_letter_plain_all by (simp add: list_all_iff)

lemma upper_string_lower: "c \<in> set upper_letters \<Longrightarrow> upper_string (lower_char c) = [c]"
  using upper_string_lower_all by (simp add: list_all_iff)

lemma map_join_str: "map f (join_str sep ws) = join_str (map f sep) (map (map f) ws)"
  by (induction sep ws rule: join_str.induct) auto

lemma lower_word_toLowerCase: "capitalized_word w \<Longrightarrow> lower_word (toLowerCase w)"
  by (cases w) (auto simp: capitalized_word_def lower_word_def toLowerCase_def list_all_iff
      lower_char_is_lower lower_char_lower)

lemma capitalize_toLowerCase: "capitalized_word w \<Longrightarrow> capitalize (toLowerCase w) = w"
  by (cases w) (auto simp: capitalized_word_def capitalize_def toLowerCase_def toUpperCase_def list_all_iff
      upper_string_lower lower_char_lower map_idI)

lemma replace_spaces_append:
  "list_all (\<lambda>x. \<not> is_space x) v \<Longrightarrow> replace_spaces r (v @ s) = v @ replace_spaces r s"
  by (induction v) auto

lemma replace_spaces_join:
  "list_all lower_word vs \<Longrightarrow> replace_spaces ''-'' (join_str '' '' vs) = join_str ''-'' vs"
proof (induction "'' ''" vs rule: join_str.induct)
  case 1
  then show ?case by simp
next
  case (2 x)
  then have "list_all (\<lambda>x. \<not> is_space x) x"
    by (auto simp: lower_word_def list_all_iff lower_letter_plain)
  from replace_spaces_append [OF this, of "''-''" "[]"] show ?case by simp
next
  case (3 x y ys)
  then have nx: "list_all (\<lambda>x. \<not> is_space x) x"
    by (auto simp: lower_word_def list_all_iff lower_letter_plain)
  from 3 obtain c cs where y: "y = c # cs" and c: "\<not> is_space c"
    by (cases y) (auto simp: lower_word_def lower_letter_plain)
  have sp: "is_space (CHR '' '')" by (simp add: is_space_def)
  have j: "join_str '' '' (y # ys) = c # tl (join_str '' '' (y # ys))"
    using y by (cases ys) auto
  have "replace_spaces ''-'' ('' '' @ join_str '' '' (y # ys))
      = ''-'' @ replace_spaces ''-'' (dropWhile is_space (join_str '' '' (y # ys)))"
    using sp by simp
  also have "dropWhile is_space (join_str '' '' (y # ys)) = join_str '' '' (y # ys)"
    using j c by (metis dropWhile.simps(2))
  finally show ?case
    using 3 nx by (simp add: replace_spaces_append)
qed

lemma split_str_plain: "d \<notin> set v \<Longrightarrow> split_str d v = [v]"
  by (induction v) auto

lemma split_str_append: "d \<notin> set v \<Longrightarrow> split_str d (v @ d # s) = v # split_str d s"
  by (induction v) auto

lemma split_join:
  "vs \<noteq> [] \<Longrightarrow> list_all lower_word vs \<Longrightarrow> split_str (CHR ''-'') (join_str ''-'' vs) = vs"
proof (induction "''-''" vs rule: join_str.induct)
  case 1
  then show ?case by simp
next
  case (2 x)
  then have "CHR ''-'' \<notin> set x"
    by (auto simp: lower_word_def list_all_iff dest: lower_letter_plain)
  then show ?case by (simp add: split_str_plain)
next
  case (3 x y ys)
  then have "CHR ''-'' \<notin> set x"
    by (auto simp: lower_word_def list_all_iff dest: lower_letter_plain)
  from split_str_append [OF this] 3 show ?case by simp
qed

text \<open>
  C7: for a display name made of simple capitalized words separated by single spaces,
  the title that \<^verbatim>\<open>get_component_info\<close> derives from the name's key is the name itself.
\<close>

theorem title_of_key_roundtrip:
  assumes "list_all capitalized_word ws"
  shows "componentTitle (toKebabCase (join_str '' '' ws)) = join_str '' '' ws"
proof (cases ws)
  case Nil
  then show ?thesis
    by (simp add: componentTitle_def toKebabCase_def toLowerCase_def toUpperCase_def capitalize_def)
next
  case (Cons w ws')
  let ?vs = "map toLowerCase ws"
  have sp: "lower_char (CHR '' '') = CHR '' ''"
    by code_simp
  have lw: "list_all lower_word ?vs"
    using assms by (auto simp: list_all_iff lower_word_toLowerCase)
  have "toLowerCase (join_str '' '' ws) = join_str '' '' ?vs"
    using map_join_str [of lower_char "'' ''" ws] sp
    by (simp add: toLowerCase_def [abs_def])
  then have k: "toKebabCase (join_str '' '' ws) = join_str ''-'' ?vs"
    using lw by (simp add: toKebabCase_def replace_spaces_join)
  have "split_str (CHR ''-'') (join_str ''-'' ?vs) = ?vs"
    using Cons lw by (intro split_join) auto
  moreover have "map capitalize ?vs = ws"
    using assms by (auto simp: list_all_iff capitalize_toLowerCase intro: map_idI)
  ultimately show ?thesis
    using k by (simp add: componentTitle_def)
qed

text \<open>Witness for C7: the catalog name \<^verbatim>\<open>Floating Action Button\<close>.\<close>

theorem title_of_key_roundtrip_witness:
  "list_all capitalized_word [''Floating'', ''Action'', ''Button''] \<and>
   toKebabCase ''Floating Action Button'' = ''floating-action-button'' \<and>
   componentTitle ''floating-action-button'' = ''Floating Action Button''"
proof -
  have h: "list_all capitalized_word [''Floating'', ''Action'', ''Button'']"
    by (simp add: capitalized_word_def upper_letters_def lower_letters_def)
  have k: "toKebabCase ''Floating Action Button'' = ''floating-action-button''"
    by code_simp
  from title_of_key_roundtrip [OF h] h k show ?thesis by simp
qed

section \<open>Failures of the outbound request\<close>

text \<open>
  C4: whatever the key, a response whose status is not OK makes \<^verbatim>\<open>get_component_info\<close>
  return the not-found message that names the key and points to \<^verbatim>\<open>list_components\<close>. The
  message does not depend on the status, and nothing is thrown to the host.
\<close>

theorem get_component_info_not_ok:
  assumes "fetch (''https://mui.com/material-ui/react-'' @ component @ ''/'') = Inr r"
    and "\<not> ok r"
  shows "get_component_info fetch engine component =
           Inr (''Error: Component '' @ sq @ component @ sq
                @ '' not found. Use list_components to see available components.'')"
  using assms by (simp add: get_component_info_def get_component_info_try_def)

text \<open>Witness for C4: the statuses 404 and 500 for the key \<^verbatim>\<open>nonexistent-component\<close>.\<close>

theorem get_component_info_not_ok_witness:
  "get_component_info (\<lambda>url. Inr \<lparr>status = 404, body_text = Inr ''Not Found''\<rparr>)
       (\<lambda>pattern. Inl (ErrorObject ''Invalid regular expression'')) ''nonexistent-component''
     = Inr (''Error: Component '' @ sq @ ''nonexistent-component'' @ sq
            @ '' not found. Use list_components to see available components.'') \<and>
   get_component_info (\<lambda>url. Inr \<lparr>status = 500, body_text = Inl (ErrorObject ''aborted'')\<rparr>)
       (\<lambda>pattern. Inl (ErrorObject ''Invalid regular expression'')) ''nonexistent-component''
     = Inr (''Error: Component '' @ sq @ ''nonexistent-component'' @ sq
            @ '' not found. Use list_components to see available components.'')"
proof -
  have a: "\<not> ok \<lparr>status = 404, body_text = Inr ''Not Found''\<rparr>"
    by (simp add: ok_def)
  have b: "\<not> ok \<lparr>status = 500, body_text = Inl (ErrorObject ''aborted'')\<rparr>"
    by (simp add: ok_def)
  show ?thesis
    using get_component_info_not_ok [OF refl a] get_component_info_not_ok [OF refl b]
    by simp
qed

text \<open>
  C5: a value thrown by the request, or by reading the body of an OK response, is caught
  and becomes the error text that carries its message; for every input the handler
  returns a text and throws nothing to the host.
\<close>

theorem get_component_info_never_throws:
  "(fetch (''https://mui.com/material-ui/react-'' @ component @ ''/'') = Inl e \<longrightarrow>
      get_component_info fetch engine component =
        Inr (''Error fetching component info: ''
             @ (case e of ErrorObject message \<Rightarrow> message | OtherValue s \<Rightarrow> s))) \<and>
   (fetch (''https://mui.com/material-ui/react-'' @ component @ ''/'') = Inr r \<and> ok r \<and>
    body_text r = Inl e \<longrightarrow>
      get_component_info fetch engine component =
        Inr (''Error fetching component info: ''
             @ (case e of ErrorObject message \<Rightarrow> message | OtherValue s \<Rightarrow> s))) \<and>
   (\<exists>result. get_component_info fetch engine component = Inr result)"
  by (auto simp: get_component_info_def get_component_info_try_def Let_def
      split: sum.splits thrown.splits)

text \<open>Witness for C5: a request that fails to resolve the host, and a body that fails to
  arrive.\<close>

theorem get_component_info_never_throws_witness:
  "get_component_info (\<lambda>url. Inl (ErrorObject ''getaddrinfo ENOTFOUND mui.com''))
       (\<lambda>pattern. Inl (ErrorObject ''Invalid regular expression'')) ''button''
     = Inr ''Error fetching component info: getaddrinfo ENOTFOUND mui.com'' \<and>
   get_component_info (\<lambda>url. Inr \<lparr>status = 200, body_text = Inl (ErrorObject ''terminated'')\<rparr>)
       (\<lambda>pattern. Inl (ErrorObject ''Invalid regular expression'')) ''button''
     = Inr ''Error fetching component info: terminated''"
proof -
  let ?engine = "\<lambda>pattern :: string. Inl (ErrorObject ''Invalid regular expression'') :: thrown + (string \<Rightarrow> string option)"
  let ?f = "\<lambda>url :: string. Inl (ErrorObject ''getaddrinfo ENOTFOUND mui.com'') :: thrown + response"
  let ?r = "\<lparr>status = 200, body_text = Inl (ErrorObject ''terminated'')\<rparr>"
  let ?g = "\<lambda>url :: string. Inr ?r :: thrown + response"
  have o: "ok ?r" by (simp add: ok_def)
  from get_component_info_never_throws
         [of ?f "''button''" "ErrorObject ''getaddrinfo ENOTFOUND mui.com''" ?engine]
  have 1: "get_component_info ?f ?engine ''button''
             = Inr ''Error fetching component info: getaddrinfo ENOTFOUND mui.com''"
    by simp
  from get_component_info_never_throws [of ?g "''button''" "ErrorObject ''terminated''" ?engine ?r] o
  have 2: "get_component_info ?g ?engine ''button'' = Inr ''Error fetching component info: terminated''"
    by simp
  from 1 2 show ?thesis by simp
qed

section \<open>Extracting the description\<close>

lemma str_match_here: "match_items re s = Some segs \<Longrightarrow> str_match re s = Some segs"
  by (cases s) auto

lemma str_match_skip:
  "\<forall>i<length pre. match_items re (drop i (pre @ s)) = None \<Longrightarrow> str_match re (pre @ s) = str_match re s"
proof (induction pre)
  case Nil
  then show ?case by simp
next
  case (Cons x pre)
  from Cons.prems have "match_items re (drop 0 ((x # pre) @ s)) = None" by blast
  then have h: "match_items re (x # pre @ s) = None" by simp
  have "\<forall>i<length pre. match_items re (drop i (pre @ s)) = None"
  proof (intro allI impI)
    fix i assume "i < length pre"
    then have "Suc i < length (x # pre)" by simp
    with Cons.prems have "match_items re (drop (Suc i) ((x # pre) @ s)) = None" by blast
    then show "match_items re (drop i (pre @ s)) = None" by simp
  qed
  with Cons.IH h show ?case by simp
qed

lemma str_match_None_iff:
  "str_match re s = None \<longleftrightarrow> (\<forall>i\<le>length s. match_items re (drop i s) = None)"
proof (induction s)
  case Nil
  then show ?case by simp
next
  case (Cons x xs)
  have "(\<forall>i\<le>length (x # xs). match_items re (drop i (x # xs)) = None) \<longleftrightarrow>
        match_items re (x # xs) = None \<and> (\<forall>i\<le>length xs. match_items re (drop i xs) = None)"
    (is "?L \<longleftrightarrow> ?R")
  proof
    assume l: ?L
    then have "match_items re (drop 0 (x # xs)) = None" by blast
    moreover have "match_items re (drop i xs) = None" if "i \<le> length xs" for i
      using l that by (metis Suc_le_mono drop_Suc_Cons length_Cons)
    ultimately show ?R by simp
  next
    assume r: ?R
    show ?L
    proof (intro allI impI)
      fix i assume "i \<le> length (x # xs)"
      then show "match_items re (drop i (x # xs)) = None"
        using r by (cases i) auto
    qed
  qed
  with Cons show ?case by (auto split: option.splits)
qed

lemma match_star_run:
  "match_items (Star a # r) u = Some (seg # segs) \<Longrightarrow> list_all (accepts a) t \<Longrightarrow>
   match_items (Star a # r) (t @ u) = Some ((t @ seg) # segs)"
  by (induction t) auto

lemma match_plus_run:
  assumes "match_items (Star a # r) u = Some (seg # segs)" and "t \<noteq> []" and "list_all (accepts a) t"
  shows "match_items (Plus a # r) (t @ u) = Some ((t @ seg) # segs)"
proof -
  from assms obtain x xs where t: "t = x # xs" by (cases t) auto
  with assms have "match_items (Star a # r) (xs @ u) = Some ((xs @ seg) # segs)"
    by (intro match_star_run) auto
  with t assms show ?thesis by simp
qed

lemma upper_char_is_upper_all: "list_all (\<lambda>c. upper_char c \<in> set upper_cased) lower_cased"
  by code_simp

lemma upper_char_other: "x \<notin> set lower_cased \<Longrightarrow> upper_char x = x"
proof -
  assume x: "x \<notin> set lower_cased"
  have "length lower_latin = length upper_latin" and "length lower_letters = length upper_letters"
    by code_simp+
  then have "map fst (zip lower_latin upper_latin) = lower_latin"
    and "map fst (zip lower_letters upper_letters) = lower_letters"
    by (simp_all only: map_fst_zip)
  then have "fst ` set (zip lower_latin upper_latin) = set lower_latin"
    and "fst ` set (zip lower_letters upper_letters) = set lower_letters"
    by (metis set_map)+
  with x have "map_of (zip lower_latin upper_latin) x = None"
    and "map_of (zip lower_letters upper_letters) x = None"
    by (simp_all add: map_of_eq_None_iff lower_cased_def)
  then show ?thesis by (simp add: upper_char_def)
qed

lemma upper_char_eq_plain:
  assumes "q \<notin> set upper_cased" and "q \<notin> set lower_cased"
  shows "upper_char x = q \<longleftrightarrow> x = q"
proof (cases "x \<in> set lower_cased")
  case True
  with upper_char_is_upper_all have "upper_char x \<in> set upper_cased"
    by (simp add: list_all_iff)
  with assms True show ?thesis by auto
next
  case False
  then show ?thesis by (simp add: upper_char_other)
qed

lemma dquote_plain: "CHR 0x22 \<notin> set upper_cased \<and> CHR 0x22 \<notin> set lower_cased"
  by code_simp

lemma accepts_NoneOf_plain:
  "q \<notin> set upper_cased \<Longrightarrow> q \<notin> set lower_cased \<Longrightarrow> accepts (NoneOf [q]) x \<longleftrightarrow> x \<noteq> q"
  by (simp add: upper_char_eq_plain upper_char_other)

lemma accepts_NoneOf_dquote: "accepts (NoneOf [CHR 0x22]) x \<longleftrightarrow> x \<noteq> CHR 0x22"
  by (rule accepts_NoneOf_plain) (simp_all add: dquote_plain)

lemma match_meta_tag:
  assumes "v \<noteq> []" and "CHR 0x22 \<notin> set v"
  shows \<open>match_items meta_re (''<meta name="description" content="'' @ v @ ''">'' @ post)
         = Some [''<meta'', '' '', ''name="description"'', '' '', ''content="'', v, ''"'']\<close>
proof -
  have q: "upper_char (CHR 0x22) = CHR 0x22" by code_simp
  have acc: "list_all (accepts (NoneOf [CHR 0x22])) v"
    using assms(2) unfolding list_all_iff accepts_NoneOf_dquote by blast
  have "match_items [Star (NoneOf [CHR 0x22]), Lit [CHR 0x22]] ([CHR 0x22, CHR ''>''] @ post)
        = Some [[], [CHR 0x22]]"
    by (simp add: q)
  from match_plus_run [OF this assms(1) acc]
  have "match_items [Plus (NoneOf [CHR 0x22]), Lit [CHR 0x22]] (v @ [CHR 0x22, CHR ''>''] @ post)
        = Some [v, [CHR 0x22]]" by simp
  then show ?thesis
    by (simp add: meta_re_def is_space_def)
qed


lemma langle_plain: "CHR ''<'' \<notin> set upper_cased \<and> CHR ''<'' \<notin> set lower_cased"
  by code_simp

lemma accepts_NoneOf_langle: "accepts (NoneOf ''<'') x \<longleftrightarrow> x \<noteq> CHR ''<''"
  by (rule accepts_NoneOf_plain) (simp_all add: langle_plain)

lemma match_p_element:
  assumes "t \<noteq> []" and "CHR ''<'' \<notin> set t"
  shows "match_items p_re (''<p>'' @ t @ ''</p>'' @ post) = Some [''<p'', [], ''>'', t, ''</p>'']"
proof -
  have acc: "list_all (accepts (NoneOf ''<'')) t"
    using assms(2) unfolding list_all_iff accepts_NoneOf_langle by blast
  have "match_items [Star (NoneOf ''<''), Lit ''</p>''] (''</p>'' @ post) = Some [[], ''</p>'']"
    by (simp add: accepts_NoneOf_langle)
  from match_plus_run [OF this assms(1) acc]
  have "match_items [Plus (NoneOf ''<''), Lit ''</p>''] (t @ ''</p>'' @ post) = Some [t, ''</p>'']"
    by simp
  moreover have "\<not> accepts (NoneOf ''>'') (CHR ''>'')"
    by code_simp
  ultimately show ?thesis
    by (simp add: p_re_def)
qed

lemma extractDescription_meta:
  assumes "v \<noteq> []" and "CHR 0x22 \<notin> set v"
    and h: \<open>html = pre @ ''<meta name="description" content="'' @ v @ ''">'' @ post\<close>
    and first: "\<forall>i<length pre. match_items meta_re (drop i html) = None"
  shows "extractDescription html = v"
proof -
  let ?tag = \<open>''<meta name="description" content="'' @ v @ ''">'' @ post\<close>
  from first have "\<forall>i<length pre. match_items meta_re (drop i (pre @ ?tag)) = None"
    unfolding h .
  then have "str_match meta_re (pre @ ?tag) = str_match meta_re ?tag"
    by (rule str_match_skip)
  also have "\<dots> = Some [''<meta'', '' '', ''name=\"description\"'', '' '', ''content=\"'', v, ''\"'']"
    by (rule str_match_here, rule match_meta_tag) (fact assms)+
  finally have "str_match meta_re html
      = Some [''<meta'', '' '', ''name=\"description\"'', '' '', ''content=\"'', v, ''\"'']"
    unfolding h .
  then show ?thesis
    by (simp add: extractDescription_def)
qed

lemma extractDescription_p:
  assumes "t \<noteq> []" and "CHR ''<'' \<notin> set t"
    and h: "html = pre @ ''<p>'' @ t @ ''</p>'' @ post"
    and nometa: "\<forall>i\<le>length html. match_items meta_re (drop i html) = None"
    and first: "\<forall>i<length pre. match_items p_re (drop i html) = None"
  shows "extractDescription html = t"
proof -
  let ?el = "''<p>'' @ t @ ''</p>'' @ post"
  from nometa have m: "str_match meta_re html = None"
    by (simp only: str_match_None_iff)
  from first have "\<forall>i<length pre. match_items p_re (drop i (pre @ ?el)) = None"
    unfolding h .
  then have "str_match p_re (pre @ ?el) = str_match p_re ?el"
    by (rule str_match_skip)
  also have "\<dots> = Some [''<p'', [], ''>'', t, ''</p>'']"
    by (rule str_match_here, rule match_p_element) (fact assms)+
  finally have "str_match p_re html = Some [''<p'', [], ''>'', t, ''</p>'']"
    unfolding h .
  with m show ?thesis
    by (simp add: extractDescription_def)
qed

lemma extractDescription_fallback:
  assumes "\<forall>i\<le>length html. match_items meta_re (drop i html) = None"
    and "\<forall>i\<le>length html. match_items p_re (drop i html) = None"
  shows "extractDescription html = ''Component description not available''"
proof -
  from assms have "str_match meta_re html = None" and "str_match p_re html = None"
    by (simp_all only: str_match_None_iff)
  then show ?thesis
    by (simp add: extractDescription_def)
qed

lemma all_below_list: "(\<forall>i<n. P i) \<longleftrightarrow> list_all P [0..<n]"
  by (auto simp: list_all_iff)

lemma all_upto_list: "(\<forall>i\<le>n. P i) \<longleftrightarrow> list_all P [0..<Suc n]"
  by (auto simp: list_all_iff less_Suc_eq_le)

text \<open>
  C3, as amended. (1) When the page holds a tag \<^verbatim>\<open><meta name="description" content="V">\<close>
  whose value \<open>V\<close> is not empty and has no double quote, and the meta pattern matches at no
  earlier position, the description is exactly \<open>V\<close>. (2) When the meta pattern matches
  nowhere and the page holds an element \<^verbatim>\<open><p>T</p>\<close> whose text \<open>T\<close> is not empty and has no
  \<^verbatim>\<open><\<close>, and the paragraph pattern matches at no earlier position, the description is \<open>T\<close>.
  (3) When neither pattern matches anywhere, the description is the fallback
  \<^verbatim>\<open>Component description not available\<close>, which has no full stop at its end.
\<close>

theorem extractDescription_cases:
  \<open>(v \<noteq> [] \<and> CHR 0x22 \<notin> set v \<and>
     html = pre @ ''<meta name="description" content="'' @ v @ ''">'' @ post \<and>
     (\<forall>i<length pre. match_items meta_re (drop i html) = None)
       \<longrightarrow> extractDescription html = v) \<and>
   (t \<noteq> [] \<and> CHR ''<'' \<notin> set t \<and>
     html = pre @ ''<p>'' @ t @ ''</p>'' @ post \<and>
     (\<forall>i\<le>length html. match_items meta_re (drop i html) = None) \<and>
     (\<forall>i<length pre. match_items p_re (drop i html) = None)
       \<longrightarrow> extractDescription html = t) \<and>
   ((\<forall>i\<le>length html. match_items meta_re (drop i html) = None) \<and>
    (\<forall>i\<le>length html. match_items p_re (drop i html) = None)
       \<longrightarrow> extractDescription html = ''Component description not available'')\<close>
proof (intro conjI impI)
  assume \<open>v \<noteq> [] \<and> CHR 0x22 \<notin> set v \<and>
     html = pre @ ''<meta name="description" content="'' @ v @ ''">'' @ post \<and>
     (\<forall>i<length pre. match_items meta_re (drop i html) = None)\<close>
  then show "extractDescription html = v"
    by (elim conjE) (rule extractDescription_meta)
next
  assume "t \<noteq> [] \<and> CHR ''<'' \<notin> set t \<and>
     html = pre @ ''<p>'' @ t @ ''</p>'' @ post \<and>
     (\<forall>i\<le>length html. match_items meta_re (drop i html) = None) \<and>
     (\<forall>i<length pre. match_items p_re (drop i html) = None)"
  then show "extractDescription html = t"
    by (elim conjE) (rule extractDescription_p)
next
  assume "(\<forall>i\<le>length html. match_items meta_re (drop i html) = None) \<and>
    (\<forall>i\<le>length html. match_items p_re (drop i html) = None)"
  then show "extractDescription html = ''Component description not available''"
    by (elim conjE) (rule extractDescription_fallback)
qed

text \<open>Witness for C3: the three pages of the specification's example, the first with
  another meta tag in front.\<close>

theorem extractDescription_cases_witness:
  \<open>extractDescription
      ''<head><meta charset="utf-8"><meta name="description" content="Displays rows and columns of data."></head>''
     = ''Displays rows and columns of data.'' \<and>
   extractDescription ''<div><p>Some text</p></div>'' = ''Some text'' \<and>
   extractDescription ''<div>Table</div>'' = ''Component description not available''\<close>
proof -
  let ?pre = \<open>''<head><meta charset="utf-8">''\<close>
  let ?v = "''Displays rows and columns of data.''"
  let ?h1 = \<open>''<head><meta charset="utf-8"><meta name="description" content="Displays rows and columns of data."></head>''\<close>
  let ?h2 = "''<div><p>Some text</p></div>''"
  let ?h3 = "''<div>Table</div>''"
  have a1: "\<forall>i<length ?pre. match_items meta_re (drop i ?h1) = None"
    unfolding all_below_list by code_simp
  have a2: "?v \<noteq> [] \<and> CHR 0x22 \<notin> set ?v"
    by simp
  have a3: \<open>?h1 = ?pre @ ''<meta name="description" content="'' @ ?v @ ''">'' @ ''</head>''\<close>
    by simp
  from extractDescription_cases [where html = ?h1 and pre = ?pre and v = ?v and post = "''</head>''"]
  have 1: "extractDescription ?h1 = ?v"
    using a1 a2 a3 by blast
  have b1: "\<forall>i\<le>length ?h2. match_items meta_re (drop i ?h2) = None"
    unfolding all_upto_list by code_simp
  have b2: "\<forall>i<length ''<div>''. match_items p_re (drop i ?h2) = None"
    unfolding all_below_list by code_simp
  have b3: "''Some text'' \<noteq> [] \<and> CHR ''<'' \<notin> set ''Some text''"
    by simp
  have b4: "?h2 = ''<div>'' @ ''<p>'' @ ''Some text'' @ ''</p>'' @ ''</div>''"
    by simp
  from extractDescription_cases [where html = ?h2 and pre = "''<div>''" and t = "''Some text''" and post = "''</div>''"]
  have 2: "extractDescription ?h2 = ''Some text''"
    using b1 b2 b3 b4 by blast
  have c1: "\<forall>i\<le>length ?h3. match_items meta_re (drop i ?h3) = None"
    unfolding all_upto_list by code_simp
  have c2: "\<forall>i\<le>length ?h3. match_items p_re (drop i ?h3) = None"
    unfolding all_upto_list by code_simp
  from extractDescription_cases [where html = ?h3]
  have 3: "extractDescription ?h3 = ''Component description not available''"
    using c1 c2 by blast
  from 1 2 3 show ?thesis by (intro conjI)
qed

text \<open>
  C3, as stated, fails: on a page with neither tag the result is not the string that
  ends with a full stop, and a meta tag whose content is empty is passed over.
\<close>

theorem extractDescription_counterexample:
  \<open>extractDescription ''<div>Table</div>'' \<noteq> ''Component description not available.'' \<and>
   extractDescription ''<meta name="description" content=""><p>A data table.</p>'' \<noteq> []\<close>
proof -
  have "extractDescription ''<div>Table</div>'' = ''Component description not available''"
    by code_simp
  moreover have \<open>extractDescription ''<meta name="description" content=""><p>A data table.</p>''
      = ''A data table.''\<close>
    by code_simp
  ultimately show ?thesis by simp
qed

text \<open>The white space of the patterns includes the no-break space U+00A0: a tag written
  with it is found, ahead of a later tag written with spaces, and a paragraph tag may
  carry it.\<close>

lemma extractDescription_no_break_space:
  \<open>extractDescription
      (''<meta'' @ [CHR 0xA0] @ ''name="description"'' @ [CHR 0xA0]
       @ ''content="A"><meta name="description" content="B">'') = ''A'' \<and>
   extractDescription (''<p'' @ [CHR 0xA0] @ ''>Hi</p>'') = ''Hi''\<close>
  by code_simp

section \<open>Searches on given queries\<close>

text \<open>
  C6: the query \<^verbatim>\<open>form\<close> finds the eight components of the category \<^verbatim>\<open>form\<close>, in the
  order of the category, and nothing that is neither in that category nor has
  \<^verbatim>\<open>form\<close> in its lower-cased name; the text returned lists these eight.
\<close>

theorem search_form:
  \<open>map_of COMPONENT_MAP ''form'' =
     Some [''Text Field'', ''Select'', ''Checkbox'', ''Radio Button'', ''Switch'', ''Slider'',
           ''Autocomplete'', ''Toggle Button''] \<and>
   search_matches ''form'' =
     [''Text Field'', ''Select'', ''Checkbox'', ''Radio Button'', ''Switch'', ''Slider'',
      ''Autocomplete'', ''Toggle Button''] \<and>
   filter (\<lambda>c. c \<notin> set (the (map_of COMPONENT_MAP ''form'')) \<and>
               \<not> includes_str (toLowerCase c) ''form'') (search_matches ''form'') = [] \<and>
   search_components ''form'' =
     ''# Components matching "form" (8 found)'' @ nl @ nl
     @ join_str nl (map search_line
         [''Text Field'', ''Select'', ''Checkbox'', ''Radio Button'', ''Switch'', ''Slider'',
          ''Autocomplete'', ''Toggle Button'']) @ nl @ nl
     @ ''Use get_component_info with the kebab-case name for details.''\<close>
proof -
  have c: "map_of COMPONENT_MAP ''form'' =
     Some [''Text Field'', ''Select'', ''Checkbox'', ''Radio Button'', ''Switch'', ''Slider'',
           ''Autocomplete'', ''Toggle Button'']"
    by (simp add: COMPONENT_MAP_def)
  have m: "search_matches ''form'' =
     [''Text Field'', ''Select'', ''Checkbox'', ''Radio Button'', ''Switch'', ''Slider'',
      ''Autocomplete'', ''Toggle Button'']"
    by code_simp
  have t: \<open>search_components ''form'' =
     ''# Components matching "form" (8 found)'' @ nl @ nl
     @ join_str nl (map search_line
         [''Text Field'', ''Select'', ''Checkbox'', ''Radio Button'', ''Switch'', ''Slider'',
          ''Autocomplete'', ''Toggle Button'']) @ nl @ nl
     @ ''Use get_component_info with the kebab-case name for details.''\<close>
    by code_simp
  have f: "filter (\<lambda>c. c \<notin> set (the (map_of COMPONENT_MAP ''form'')) \<and>
               \<not> includes_str (toLowerCase c) ''form'') (search_matches ''form'') = []"
    unfolding c m by simp
  from c m f t show ?thesis
    by (intro conjI)
qed

text \<open>
  C8: the empty query matches no category and every catalog name, so the search returns
  the whole catalog, in catalog order, and not the hint.
\<close>

theorem search_empty_query:
  \<open>category_matches [] = {} \<and> name_matches [] = set COMPONENTS \<and>
   search_matches [] = COMPONENTS \<and>
   search_components [] =
     ''# Components matching "" (56 found)'' @ nl @ nl
     @ join_str nl (map search_line COMPONENTS) @ nl @ nl
     @ ''Use get_component_info with the kebab-case name for details.''\<close>
proof -
  have c: "category_matches [] = {}"
    by (simp add: category_matches_def COMPONENT_MAP_def toLowerCase_def)
  have "\<exists>before after. toLowerCase c = before @ toLowerCase [] @ after" for c
    by (rule exI [of _ "[]"], rule exI [of _ "toLowerCase c"]) (simp add: toLowerCase_def)
  then have a: "name_matches [] = set COMPONENTS"
    by (simp add: name_matches_def)
  have m: "search_matches [] = COMPONENTS"
    by code_simp
  have l: "length COMPONENTS = 56"
    by (simp add: COMPONENTS_def)
  have n: "string_of_nat 56 = ''56''"
    by code_simp
  from l have ne: "COMPONENTS \<noteq> []"
    by auto
  from c a m ne show ?thesis
    by (simp add: search_components_def l n del: string_of_nat.simps)
qed

text \<open>
  C9: the queries \<^verbatim>\<open>feedback\<close> and \<^verbatim>\<open>utility\<close> return the names \<^verbatim>\<open>Progress\<close> and
  \<^verbatim>\<open>No SSR\<close>, which the catalog does not list; so the names of a search result are not
  always catalog components.
\<close>

theorem search_outside_catalog:
  "''Progress'' \<in> set (search_matches ''feedback'') \<and> ''Progress'' \<notin> set COMPONENTS \<and>
   ''No SSR'' \<in> set (search_matches ''utility'') \<and> ''No SSR'' \<notin> set COMPONENTS \<and>
   \<not> (\<forall>query. set (search_matches query) \<subseteq> set COMPONENTS)"
proof -
  have f: "search_matches ''feedback'' =
      [''Alert'', ''Backdrop'', ''Dialog'', ''Progress'', ''Circular Progress'',
       ''Linear Progress'', ''Skeleton'', ''Snackbar'']"
    by code_simp
  have u: "search_matches ''utility'' = [''Click Away Listener'', ''CSS Baseline'', ''Portal'', ''No SSR'']"
    by code_simp
  have p: "''Progress'' \<notin> set COMPONENTS" and s: "''No SSR'' \<notin> set COMPONENTS"
    by (simp_all add: COMPONENTS_def)
  have pf: "''Progress'' \<in> set (search_matches ''feedback'')"
    unfolding f by simp
  have su: "''No SSR'' \<in> set (search_matches ''utility'')"
    unfolding u by simp
  from pf p have "\<not> (\<forall>query. set (search_matches query) \<subseteq> set COMPONENTS)"
    by blast
  with pf p su s show ?thesis by blast
qed

section \<open>The text of a successful lookup\<close>

text \<open>
  C10, as amended. For a key whose title is within the range of the model: on the
  success path the text of \<^verbatim>\<open>get_component_info\<close> is a fixed frame around the title derived
  from the key, the extracted description, the extracted import statement and the
  documentation URL. No tool calls \<^verbatim>\<open>extractUsage\<close>: on two pages with the same description
  and the same import statement \<^verbatim>\<open>get_component_info\<close> returns the same text, and the other
  five tools return the same text whatever the request and the page are.
\<close>

theorem tools_without_usage:
  "(title_in_range component \<and>
    fetch (''https://mui.com/material-ui/react-'' @ component @ ''/'') = Inr r \<and> ok r \<and>
    body_text r = Inr html \<and>
    extractImport engine html (componentTitle component) = Inr importStatement
    \<longrightarrow>
    call_tool fetch engine (Get_component_info component) =
     Inr (''# '' @ componentTitle component @ '' Component'' @ nl @ nl
          @ extractDescription html @ nl @ nl
          @ ''## Import'' @ nl @ ''```tsx'' @ nl
          @ importStatement @ nl @ ''```'' @ nl @ nl
          @ ''## Documentation'' @ nl @ ''Full documentation: ''
          @ ''https://mui.com/material-ui/react-'' @ component @ ''/'' @ nl @ nl
          @ ''For API reference and props, visit the API tab on the documentation page.''
          @ nl @ nl
          @ ''## Related Resources'' @ nl
          @ ''- Check the documentation page for live demos and examples'' @ nl
          @ ''- Use get_customization_guide for theming and styling options'' @ nl
          @ ''- Use search_components to find related components'')) \<and>
   (title_in_range component \<and>
    fetch (''https://mui.com/material-ui/react-'' @ component @ ''/'') = Inr r \<and> ok r \<and>
    body_text r = Inr html \<and>
    fetch' (''https://mui.com/material-ui/react-'' @ component @ ''/'') = Inr r' \<and> ok r' \<and>
    body_text r' = Inr html' \<and>
    extractDescription html' = extractDescription html \<and>
    extractImport engine html' (componentTitle component)
      = extractImport engine html (componentTitle component)
    \<longrightarrow>
    call_tool fetch' engine (Get_component_info component)
      = call_tool fetch engine (Get_component_info component)) \<and>
   ((\<forall>key. call \<noteq> Get_component_info key)
    \<longrightarrow> call_tool fetch' engine' call = call_tool fetch engine call)"
proof (intro conjI impI)
  assume "title_in_range component \<and>
    fetch (''https://mui.com/material-ui/react-'' @ component @ ''/'') = Inr r \<and> ok r \<and>
    body_text r = Inr html \<and>
    extractImport engine html (componentTitle component) = Inr importStatement"
  then show "call_tool fetch engine (Get_component_info component) =
     Inr (''# '' @ componentTitle component @ '' Component'' @ nl @ nl
          @ extractDescription html @ nl @ nl
          @ ''## Import'' @ nl @ ''```tsx'' @ nl
          @ importStatement @ nl @ ''```'' @ nl @ nl
          @ ''## Documentation'' @ nl @ ''Full documentation: ''
          @ ''https://mui.com/material-ui/react-'' @ component @ ''/'' @ nl @ nl
          @ ''For API reference and props, visit the API tab on the documentation page.''
          @ nl @ nl
          @ ''## Related Resources'' @ nl
          @ ''- Check the documentation page for live demos and examples'' @ nl
          @ ''- Use get_customization_guide for theming and styling options'' @ nl
          @ ''- Use search_components to find related components'')"
    by (simp add: call_tool_def get_component_info_def get_component_info_try_def Let_def)
next
  assume "title_in_range component \<and>
    fetch (''https://mui.com/material-ui/react-'' @ component @ ''/'') = Inr r \<and> ok r \<and>
    body_text r = Inr html \<and>
    fetch' (''https://mui.com/material-ui/react-'' @ component @ ''/'') = Inr r' \<and> ok r' \<and>
    body_text r' = Inr html' \<and>
    extractDescription html' = extractDescription html \<and>
    extractImport engine html' (componentTitle component)
      = extractImport engine html (componentTitle component)"
  then show "call_tool fetch' engine (Get_component_info component)
      = call_tool fetch engine (Get_component_info component)"
    by (simp add: call_tool_def get_component_info_def get_component_info_try_def Let_def)
next
  assume "\<forall>key. call \<noteq> Get_component_info key"
  then show "call_tool fetch' engine' call = call_tool fetch engine call"
    by (cases call) (simp_all add: call_tool_def)
qed

text \<open>Witness for C10: the key \<^verbatim>\<open>text-field\<close> with two pages that differ only in their
  code element, and hence in what \<^verbatim>\<open>extractUsage\<close> makes of them; and the setup guide
  under two different environments.\<close>

theorem tools_without_usage_witness:
  \<open>call_tool
     (\<lambda>url. Inr \<lparr>status = 200, body_text = Inr
        ''<meta name="description" content="Text Fields let users enter and edit text."><code>npm install</code>''\<rparr>)
     (\<lambda>pattern. Inl (ErrorObject ''Invalid regular expression''))
     (Get_component_info ''text-field'')
   = Inr (''# Text Field Component'' @ nl @ nl
          @ ''Text Fields let users enter and edit text.'' @ nl @ nl
          @ ''## Import'' @ nl @ ''```tsx'' @ nl
          @ ''import { TextField } from '' @ sq @ ''@mui/material'' @ sq @ '';'' @ nl @ ''```'' @ nl @ nl
          @ ''## Documentation'' @ nl
          @ ''Full documentation: https://mui.com/material-ui/react-text-field/'' @ nl @ nl
          @ ''For API reference and props, visit the API tab on the documentation page.''
          @ nl @ nl
          @ ''## Related Resources'' @ nl
          @ ''- Check the documentation page for live demos and examples'' @ nl
          @ ''- Use get_customization_guide for theming and styling options'' @ nl
          @ ''- Use search_components to find related components'') \<and>
   extractUsage ''<meta name="description" content="Text Fields let users enter and edit text."><code>yarn add</code>''
     \<noteq> extractUsage ''<meta name="description" content="Text Fields let users enter and edit text."><code>npm install</code>'' \<and>
   call_tool
     (\<lambda>url. Inr \<lparr>status = 200, body_text = Inr
        ''<meta name="description" content="Text Fields let users enter and edit text."><code>yarn add</code>''\<rparr>)
     (\<lambda>pattern. Inl (ErrorObject ''Invalid regular expression''))
     (Get_component_info ''text-field'')
   = call_tool
     (\<lambda>url. Inr \<lparr>status = 200, body_text = Inr
        ''<meta name="description" content="Text Fields let users enter and edit text."><code>npm install</code>''\<rparr>)
     (\<lambda>pattern. Inl (ErrorObject ''Invalid regular expression''))
     (Get_component_info ''text-field'') \<and>
   call_tool (\<lambda>url. Inl (ErrorObject ''fetch failed''))
     (\<lambda>pattern. Inl (ErrorObject ''Invalid regular expression'')) Get_setup_guide
   = call_tool
     (\<lambda>url. Inr \<lparr>status = 200, body_text = Inr
        ''<meta name="description" content="Text Fields let users enter and edit text."><code>npm install</code>''\<rparr>)
     (\<lambda>pattern. Inr (\<lambda>html. None)) Get_setup_guide\<close>
proof -
  let ?p = \<open>''<meta name="description" content="Text Fields let users enter and edit text."><code>npm install</code>''\<close>
  let ?p' = \<open>''<meta name="description" content="Text Fields let users enter and edit text."><code>yarn add</code>''\<close>
  let ?r = "\<lparr>status = 200, body_text = Inr ?p\<rparr>"
  let ?r' = "\<lparr>status = 200, body_text = Inr ?p'\<rparr>"
  let ?f = "\<lambda>url :: string. Inr ?r :: thrown + response"
  let ?f' = "\<lambda>url :: string. Inr ?r' :: thrown + response"
  let ?g = "\<lambda>url :: string. Inl (ErrorObject ''fetch failed'') :: thrown + response"
  let ?e = "\<lambda>pattern :: string. Inl (ErrorObject ''Invalid regular expression'') :: thrown + (string \<Rightarrow> string option)"
  let ?e' = "\<lambda>pattern :: string. Inr (\<lambda>html :: string. None :: string option) :: thrown + (string \<Rightarrow> string option)"
  let ?imp = "''import { TextField } from '' @ sq @ ''@mui/material'' @ sq @ '';''"
  have k: "title_in_range ''text-field''"
    by code_simp
  have o: "ok ?r" "ok ?r'"
    by (simp_all add: ok_def)
  have t: "componentTitle ''text-field'' = ''Text Field''"
    by code_simp
  have d: "extractDescription ?p = ''Text Fields let users enter and edit text.''"
    by code_simp
  have d': "extractDescription ?p' = extractDescription ?p"
    by code_simp
  have i: "extractImport ?e ?p (componentTitle ''text-field'') = Inr ?imp"
    by code_simp
  have i': "extractImport ?e ?p' (componentTitle ''text-field'') = extractImport ?e ?p (componentTitle ''text-field'')"
    by code_simp
  have u: "extractUsage ?p' \<noteq> extractUsage ?p"
    by code_simp
  note w = tools_without_usage
    [where fetch = ?f and fetch' = ?f' and engine = ?e and component = "''text-field''"
       and r = ?r and r' = ?r' and html = ?p and html' = ?p' and importStatement = ?imp]
  from w k o i have 1: "call_tool ?f ?e (Get_component_info ''text-field'') =
     Inr (''# '' @ componentTitle ''text-field'' @ '' Component'' @ nl @ nl
          @ extractDescription ?p @ nl @ nl
          @ ''## Import'' @ nl @ ''```tsx'' @ nl
          @ ?imp @ nl @ ''```'' @ nl @ nl
          @ ''## Documentation'' @ nl @ ''Full documentation: ''
          @ ''https://mui.com/material-ui/react-'' @ ''text-field'' @ ''/'' @ nl @ nl
          @ ''For API reference and props, visit the API tab on the documentation page.''
          @ nl @ nl
          @ ''## Related Resources'' @ nl
          @ ''- Check the documentation page for live demos and examples'' @ nl
          @ ''- Use get_customization_guide for theming and styling options'' @ nl
          @ ''- Use search_components to find related components'')"
    by simp
  from w k o d' i' have 2: "call_tool ?f' ?e (Get_component_info ''text-field'')
      = call_tool ?f ?e (Get_component_info ''text-field'')"
    by simp
  from tools_without_usage [where call = Get_setup_guide and fetch = ?f and fetch' = ?g
                                and engine = ?e' and engine' = ?e]
  have 3: "call_tool ?g ?e Get_setup_guide = call_tool ?f ?e' Get_setup_guide"
    by simp
  from 1 2 3 u show ?thesis
    unfolding t d by simp
qed

text \<open>
  C10, as stated, fails: what \<^verbatim>\<open>extractUsage\<close> gives for a page can stand in a tool's
  output. On a page whose description is the usage fallback, the text of
  \<^verbatim>\<open>get_component_info\<close> contains the result of \<^verbatim>\<open>extractUsage\<close>.
\<close>

theorem usage_text_counterexample:
  \<open>extractUsage ''<meta name="description" content="See documentation for usage examples.">''
     = ''See documentation for usage examples.'' \<and>
   (case call_tool
           (\<lambda>url. Inr \<lparr>status = 200, body_text = Inr
              ''<meta name="description" content="See documentation for usage examples.">''\<rparr>)
           (\<lambda>pattern. Inl (ErrorObject ''Invalid regular expression''))
           (Get_component_info ''button'')
    of Inl e \<Rightarrow> False
     | Inr result \<Rightarrow>
         includes_str result
           (extractUsage ''<meta name="description" content="See documentation for usage examples.">''))\<close>
  by code_simp

end
